theory Spec2Isabelle
  imports Main
begin

section \<open>Strings and JavaScript values\<close>

text \<open>
  A JavaScript string is modelled as a \<open>string\<close>; one \<open>char\<close> stands for one UTF-16 code
  unit below 256. The three source variants of the plugin are modelled side by side:
  the variant with the file-patch fallback (\<open>src/unnamed/part_000\<close>, whose formatter and
  renderer are the same text as the first document of \<open>src/main.ts\<close>) keeps the source's
  names; the definitions of the Luxon variant (second document of \<open>src/main.ts\<close>) carry
  the suffix \<open>B\<close>.
\<close>

abbreviation dq :: char where "dq \<equiv> CHR 0x22"
abbreviation sq :: char where "sq \<equiv> CHR 0x27"
abbreviation newline :: char where "newline \<equiv> CHR 0x0A"

text \<open>\<open>escapeHtml\<close>: \<open>String(s).replace(/[&<>"']/g, c => table[c])\<close>.\<close>

fun escapeChar :: "char \<Rightarrow> string" where
  "escapeChar c =
     (if c = CHR ''&'' then ''&amp;''
      else if c = CHR ''<'' then ''&lt;''
      else if c = CHR ''>'' then ''&gt;''
      else if c = dq then ''&quot;''
      else if c = sq then ''&#39;''
      else [c])"

definition escapeHtml :: "string \<Rightarrow> string" where
  "escapeHtml s = concat (map escapeChar s)"

text \<open>
  White space as \<open>String.prototype.trim\<close> and the regular expression class \<open>\s\<close> read it
  (tab, line feed, vertical tab, form feed, carriage return, space, no-break space), and
  the line terminators after which \<open>^\<close> matches under the \<open>m\<close> flag.
\<close>

definition isSpace :: "char \<Rightarrow> bool" where
  "isSpace c = (c \<in> set [CHR 0x09, CHR 0x0A, CHR 0x0B, CHR 0x0C, CHR 0x0D, CHR 0x20, CHR 0xA0])"

definition isLineTerminator :: "char \<Rightarrow> bool" where
  "isLineTerminator c = (c = CHR 0x0A \<or> c = CHR 0x0D)"

definition isDigit :: "char \<Rightarrow> bool" where
  "isDigit c = (c \<in> set ''0123456789'')"

definition trim :: "string \<Rightarrow> string" where
  "trim s = rev (dropWhile isSpace (rev (dropWhile isSpace s)))"

text \<open>\<open>s.split(',')\<close>: the pieces between the separators; the empty string gives one empty piece.\<close>

fun split_on :: "char \<Rightarrow> string \<Rightarrow> string list" where
  "split_on sep [] = [[]]"
| "split_on sep (c # cs) =
     (if c = sep then [] # split_on sep cs
      else (case split_on sep cs of
              [] \<Rightarrow> [[c]]
            | w # ws \<Rightarrow> (c # w) # ws))"

text \<open>\<open>xs.join(sep)\<close> on strings.\<close>

fun joinWith :: "string \<Rightarrow> string list \<Rightarrow> string" where
  "joinWith sep [] = []"
| "joinWith sep [x] = x"
| "joinWith sep (x # y # ys) = x @ sep @ joinWith sep (y # ys)"

text \<open>
  A frontmatter value (\<open>unknown\<close> in the source). A number carries the text \<open>String(n)\<close>
  yields for it and a nested mapping the text \<open>JSON.stringify\<close> yields for it: both are
  built-ins of the host and none of the plugin's code looks inside them.
\<close>

datatype jsval =
    Null
  | Undefined
  | Str string
  | Num string
  | Bool bool
  | Arr "jsval list"
  | Obj string

text \<open>
  \<open>String(v)\<close>. An array is joined with commas, \<open>null\<close> and \<open>undefined\<close> elements giving
  the empty string; a plain object gives \<open>[object Object]\<close>.
\<close>

fun jsString :: "jsval \<Rightarrow> string" where
  "jsString Null = ''null''"
| "jsString Undefined = ''undefined''"
| "jsString (Str s) = s"
| "jsString (Num r) = r"
| "jsString (Bool b) = (if b then ''true'' else ''false'')"
| "jsString (Arr xs) =
     joinWith '',''
       (map (\<lambda>x. if x = Null \<or> x = Undefined then [] else jsString x) xs)"
| "jsString (Obj j) = ''[object Object]''"

section \<open>Value formatter (variant with the file-patch fallback)\<close>

text \<open>
  The date-time test of \<open>valueToHtml\<close>:
  \<open>/^(\d{4}-\d{2}-\d{2})[T ](\d{2}):(\d{2})(?::(\d{2}))?$/\<close>. The expression has a fixed
  shape, so a match is a character-class test position by position, on 16 or 19 characters.
\<close>

datatype cls = Digit | Lit char | Among string

fun inCls :: "cls \<Rightarrow> char \<Rightarrow> bool" where
  "inCls Digit c = isDigit c"
| "inCls (Lit d) c = (c = d)"
| "inCls (Among ds) c = (c \<in> set ds)"

definition matchesPattern :: "cls list \<Rightarrow> string \<Rightarrow> bool" where
  "matchesPattern p s = list_all2 inCls p s"

definition dateTimePattern :: "cls list" where
  "dateTimePattern =
     [Digit, Digit, Digit, Digit, Lit CHR ''-'', Digit, Digit, Lit CHR ''-'', Digit, Digit,
      Among ''T '', Digit, Digit, Lit CHR '':'', Digit, Digit]"

definition secondsPattern :: "cls list" where
  "secondsPattern = [Lit CHR '':'', Digit, Digit]"

text \<open>The groups of a match: the date part, the hour digits and the minute digits.\<close>

definition dateMatch :: "string \<Rightarrow> (string \<times> string \<times> string) option" where
  "dateMatch s =
     (if matchesPattern dateTimePattern s \<or> matchesPattern (dateTimePattern @ secondsPattern) s
      then Some (take 10 s, take 2 (drop 11 s), take 2 (drop 14 s))
      else None)"

definition digitValue :: "char \<Rightarrow> nat" where
  "digitValue c = of_char c - 48"

definition digitChar :: "nat \<Rightarrow> char" where
  "digitChar n = char_of (48 + n)"

text \<open>\<open>parseInt(hhStr, 10)\<close> on two digits, and \<open>String(hh).padStart(2, '0')\<close> for \<open>hh < 100\<close>.\<close>

definition parseInt2 :: "string \<Rightarrow> nat" where
  "parseInt2 s = 10 * digitValue (s ! 0) + digitValue (s ! 1)"

definition padStart2 :: "nat \<Rightarrow> string" where
  "padStart2 n = [digitChar (n div 10), digitChar (n mod 10)]"

definition formatDateTime :: "string \<times> string \<times> string \<Rightarrow> string" where
  "formatDateTime m =
     (case m of (datePart, hhStr, mmStr) \<Rightarrow>
        let hh0 = parseInt2 hhStr;
            ampm = (if hh0 \<ge> 12 then ''PM'' else ''AM'');
            hh1 = hh0 mod 12;
            hh = (if hh1 = 0 then 12 else hh1)
        in escapeHtml datePart @ '' '' @ escapeHtml (padStart2 hh @ mmStr @ ampm))"

text \<open>
  One attempt of \<open>/\[\[([^\]]+)\]\]/\<close> at the start of a string: the group is the longest
  run of characters other than \<open>]\<close> after the two opening brackets (a shorter run cannot
  be followed by \<open>]\<close>), it must not be empty, and \<open>]]\<close> must follow. The result is the
  group and the text left after the match.
\<close>

definition matchWikilink :: "string \<Rightarrow> (string \<times> string) option" where
  "matchWikilink s =
     (if take 2 s = ''[[''
      then (let body = takeWhile (\<lambda>c. c \<noteq> CHR '']'') (drop 2 s);
                rest = dropWhile (\<lambda>c. c \<noteq> CHR '']'') (drop 2 s)
            in if body \<noteq> [] \<and> take 2 rest = '']]'' then Some (body, drop 2 rest) else None)
      else None)"

definition internalLink :: "string \<Rightarrow> string" where
  \<open>internalLink text =
     ''<a class="internal-link" href="#" style="color:var(--text-accent, #388bfd);text-decoration:underline;">''
     @ text @ ''</a>''\<close>

lemma matchWikilink_shorter:
  "matchWikilink s = Some (body, rest) \<Longrightarrow> length rest < length s"
proof -
  assume m: "matchWikilink s = Some (body, rest)"
  let ?t = "drop 2 s"
  from m have two: "take 2 s = ''[[''" and
    rest: "rest = drop 2 (dropWhile (\<lambda>c. c \<noteq> CHR '']'') ?t)"
    by (auto simp: matchWikilink_def Let_def split: if_splits)
  from two have "length s \<ge> 2"
    by (cases s; cases "tl s") auto
  moreover have "length (dropWhile (\<lambda>c. c \<noteq> CHR '']'') ?t) \<le> length ?t"
    by (rule length_dropWhile_le)
  ultimately show ?thesis using rest by simp
qed

text \<open>
  \<open>s.replace(/\[\[([^\]]+)\]\]/g, (_m, path) => link)\<close>: the matches are taken from left to
  right, each replaced by the link around the escaped group; every other character is
  copied as it is.
\<close>

function replaceWikilinks :: "string \<Rightarrow> string" where
  "replaceWikilinks [] = []"
| "replaceWikilinks (c # cs) =
     (case matchWikilink (c # cs) of
        Some (path, rest) \<Rightarrow> internalLink (escapeHtml path) @ replaceWikilinks rest
      | None \<Rightarrow> c # replaceWikilinks cs)"
  by pat_completeness auto
termination
  by (relation "measure length") (auto dest: matchWikilink_shorter)

text \<open>\<open>valueToHtml\<close> of the variant with the file-patch fallback.\<close>

fun valueToHtml :: "jsval \<Rightarrow> string" where
  "valueToHtml Null = []"
| "valueToHtml Undefined = []"
| "valueToHtml (Arr xs) = joinWith '', '' (map valueToHtml xs)"
| "valueToHtml v =
     (let s = jsString v
      in case dateMatch s of
           Some m \<Rightarrow> formatDateTime m
         | None \<Rightarrow> replaceWikilinks s)"

section \<open>Value formatter (Luxon variant)\<close>

text \<open>
  \<open>isDateValue\<close>: the value is a string and matches
  \<open>/^\d{4}-\d{2}-\d{2}(T\d{2}:\d{2}(:\d{2}(\.\d+)?)?(Z|([+-]\d{2}:\d{2}))?)?$/\<close>.
  The optional parts start with different characters, so each is decided by its first
  character and the digit run of the fraction is the longest one.
\<close>

definition datePattern :: "cls list" where
  "datePattern =
     [Digit, Digit, Digit, Digit, Lit CHR ''-'', Digit, Digit, Lit CHR ''-'', Digit, Digit]"

definition timePattern :: "cls list" where
  "timePattern = [Lit CHR ''T'', Digit, Digit, Lit CHR '':'', Digit, Digit]"

definition zonePattern :: "cls list" where
  "zonePattern = [Among ''+-'', Digit, Digit, Lit CHR '':'', Digit, Digit]"

definition isZone :: "string \<Rightarrow> bool" where
  "isZone z = (z = [] \<or> z = ''Z'' \<or> matchesPattern zonePattern z)"

definition isFractionZone :: "string \<Rightarrow> bool" where
  "isFractionZone r =
     (isZone r \<or>
      (take 1 r = ''.'' \<and> takeWhile isDigit (drop 1 r) \<noteq> [] \<and>
       isZone (dropWhile isDigit (drop 1 r))))"

definition isTimeTail :: "string \<Rightarrow> bool" where
  "isTimeTail r =
     (isZone r \<or> (matchesPattern secondsPattern (take 3 r) \<and> isFractionZone (drop 3 r)))"

fun isDateValue :: "jsval \<Rightarrow> bool" where
  "isDateValue (Str s) =
     (matchesPattern datePattern (take 10 s) \<and>
      (drop 10 s = [] \<or>
       (matchesPattern timePattern (take 6 (drop 10 s)) \<and> isTimeTail (drop 16 s))))"
| "isDateValue v = False"

text \<open>
  One attempt of \<open>/\[\[([^\]|]+)(\|([^\]]+))?\]\]/\<close> at the start of a string: the link
  (the longest run without \<open>]\<close> and \<open>|\<close>, not empty), the display text when a \<open>|\<close> and a
  non-empty run without \<open>]\<close> follow, and the text left after the closing brackets.
\<close>

definition matchWikilinkB :: "string \<Rightarrow> (string \<times> string option \<times> string) option" where
  "matchWikilinkB s =
     (if take 2 s = ''[[''
      then (let link = takeWhile (\<lambda>c. c \<noteq> CHR '']'' \<and> c \<noteq> CHR ''|'') (drop 2 s);
                r = dropWhile (\<lambda>c. c \<noteq> CHR '']'' \<and> c \<noteq> CHR ''|'') (drop 2 s)
            in if link = [] then None
               else if take 2 r = '']]'' then Some (link, None, drop 2 r)
               else if take 1 r = ''|''
               then (let display = takeWhile (\<lambda>c. c \<noteq> CHR '']'') (drop 1 r);
                         r2 = dropWhile (\<lambda>c. c \<noteq> CHR '']'') (drop 1 r)
                     in if display \<noteq> [] \<and> take 2 r2 = '']]''
                        then Some (link, Some display, drop 2 r2)
                        else None)
               else None)
      else None)"

definition internalLinkB :: "string \<Rightarrow> string \<Rightarrow> string" where
  \<open>internalLinkB link text =
     ''<a href="#'' @ escapeHtml link @ ''" class="internal-link">'' @ escapeHtml text @ ''</a>''\<close>

lemma matchWikilinkB_shorter:
  assumes "matchWikilinkB s = Some (link, display, rest)"
  shows "length rest < length s"
proof -
  let ?p = "\<lambda>c. c \<noteq> CHR '']'' \<and> c \<noteq> CHR ''|''"
  let ?q = "\<lambda>c. c \<noteq> CHR '']''"
  let ?r = "dropWhile ?p (drop 2 s)"
  from assms have two: "take 2 s = ''[[''"
    by (auto simp: matchWikilinkB_def split: if_splits)
  then have len: "length s \<ge> 2"
    by (cases s; cases "tl s") auto
  have r: "length ?r \<le> length (drop 2 s)"
    by (rule length_dropWhile_le)
  have r2: "length (dropWhile ?q (drop 1 ?r)) \<le> length (drop 1 ?r)"
    by (rule length_dropWhile_le)
  from assms have "rest = drop 2 ?r \<or> rest = drop 2 (dropWhile ?q (drop 1 ?r))"
    by (auto simp: matchWikilinkB_def Let_def split: if_splits)
  then show ?thesis using len r r2 by auto
qed

function replaceWikilinksB :: "string \<Rightarrow> string" where
  "replaceWikilinksB [] = []"
| "replaceWikilinksB (c # cs) =
     (case matchWikilinkB (c # cs) of
        Some (link, display, rest) \<Rightarrow>
          internalLinkB link (case display of Some d \<Rightarrow> d | None \<Rightarrow> link)
          @ replaceWikilinksB rest
      | None \<Rightarrow> c # replaceWikilinksB cs)"
  by pat_completeness auto
termination
  by (relation "measure length") (auto dest: matchWikilinkB_shorter)

text \<open>
  One attempt of \<open>/(<a [^>]+>[^<]*<\/a>)/\<close> at the start of a string: the matched text
  and the text left after it.
\<close>

definition matchAnchor :: "string \<Rightarrow> (string \<times> string) option" where
  "matchAnchor s =
     (if take 3 s = ''<a ''
      then (let attrs = takeWhile (\<lambda>c. c \<noteq> CHR ''>'') (drop 3 s);
                r = dropWhile (\<lambda>c. c \<noteq> CHR ''>'') (drop 3 s)
            in if attrs \<noteq> [] \<and> take 1 r = ''>''
               then (let inner = takeWhile (\<lambda>c. c \<noteq> CHR ''<'') (drop 1 r);
                         r2 = dropWhile (\<lambda>c. c \<noteq> CHR ''<'') (drop 1 r)
                     in if take 4 r2 = ''</a>''
                        then Some (''<a '' @ attrs @ ''>'' @ inner @ ''</a>'', drop 4 r2)
                        else None)
               else None)
      else None)"

lemma matchAnchor_shorter:
  assumes "matchAnchor s = Some (a, rest)"
  shows "length rest < length s"
proof -
  let ?r = "dropWhile (\<lambda>c. c \<noteq> CHR ''>'') (drop 3 s)"
  let ?r2 = "dropWhile (\<lambda>c. c \<noteq> CHR ''<'') (drop 1 ?r)"
  from assms have "take 3 s = ''<a ''"
    by (auto simp: matchAnchor_def split: if_splits)
  then have len: "length s \<ge> 3"
    by (cases s; cases "tl s"; cases "tl (tl s)") auto
  have r: "length ?r \<le> length (drop 3 s)"
    by (rule length_dropWhile_le)
  have r2: "length ?r2 \<le> length (drop 1 ?r)"
    by (rule length_dropWhile_le)
  from assms have "rest = drop 4 ?r2"
    by (auto simp: matchAnchor_def Let_def split: if_splits)
  then show ?thesis using len r r2 by auto
qed

text \<open>
  \<open>str.split(/(<a [^>]+>[^<]*<\/a>)/g)\<close>: the texts between the matches, with each match
  (the capture group) between them.
\<close>

function splitAnchors :: "string \<Rightarrow> string list" where
  "splitAnchors [] = [[]]"
| "splitAnchors (c # cs) =
     (case matchAnchor (c # cs) of
        Some (a, rest) \<Rightarrow> [] # a # splitAnchors rest
      | None \<Rightarrow>
          (case splitAnchors cs of
             [] \<Rightarrow> [[c]]
           | p # ps \<Rightarrow> (c # p) # ps))"
  by pat_completeness auto
termination
  by (relation "measure length") (auto dest: matchAnchor_shorter)

definition formatTextB :: "string \<Rightarrow> string" where
  "formatTextB str =
     concat (map (\<lambda>part. if take 3 part = ''<a '' then part else escapeHtml part)
                 (splitAnchors (replaceWikilinksB str)))"

text \<open>
  \<open>valueToHtml\<close> of the Luxon variant. The Luxon library is not part of the repository
  (only its declaration, \<open>src/luxon.d.ts\<close>): \<open>luxon iso fmt\<close> is the text
  \<open>DateTime.fromISO(iso).toFormat(fmt)\<close> when the parsed date is valid, and \<open>None\<close> when it
  is invalid or the call throws (the formatter then goes on to the branches below).
\<close>

fun valueToHtmlB :: "(string \<Rightarrow> string \<Rightarrow> string option) \<Rightarrow> string \<Rightarrow> jsval \<Rightarrow> string" where
  "valueToHtmlB luxon fmt (Arr xs) = joinWith '', '' (map (valueToHtmlB luxon fmt) xs)"
| "valueToHtmlB luxon fmt v =
     (case (if isDateValue v then luxon (jsString v) fmt else None) of
        Some t \<Rightarrow> escapeHtml t
      | None \<Rightarrow>
          (case v of
             Obj j \<Rightarrow> escapeHtml j
           | _ \<Rightarrow> formatTextB (jsString v)))"

section \<open>Properties renderer\<close>

text \<open>
  A property map (\<open>Record<string, unknown>\<close>) is the list of its own entries in the order of
  \<open>Object.keys\<close>. \<open>delete props[k]\<close> removes the entry of key \<open>k\<close> and keeps the order of the
  others.
\<close>

type_synonym props = "(string \<times> jsval) list"

definition deleteKey :: "string \<Rightarrow> props \<Rightarrow> props" where
  "deleteKey k ps = filter (\<lambda>e. fst e \<noteq> k) ps"

text \<open>
  \<open>Object.assign({}, props)\<close> assigns the own entries to a new object in their order. The
  assignment of the key \<open>__proto__\<close> goes to the setter of \<open>Object.prototype\<close> and makes no
  entry: the copy has every entry but that one.
\<close>

definition objectAssign :: "props \<Rightarrow> props" where
  "objectAssign ps = deleteKey ''__proto__'' ps"

record settings =
  displayProperties :: bool
  omittedProperties :: string
  insertAfterHeading :: bool

text \<open>\<open>omittedProperties.split(',').map(p => p.trim()).filter(p => p.length > 0)\<close>.\<close>

definition omittedProps :: "string \<Rightarrow> string list" where
  "omittedProps s = filter (\<lambda>p. length p > 0) (map trim (split_on CHR '','' s))"

text \<open>\<open>for (const prop of omittedProps) delete props[prop]\<close>.\<close>

definition deleteOmitted :: "settings \<Rightarrow> props \<Rightarrow> props" where
  "deleteOmitted st ps = foldl (\<lambda>acc p. deleteKey p acc) ps (omittedProps (omittedProperties st))"

definition propertyRow :: "string \<times> jsval \<Rightarrow> string" where
  \<open>propertyRow e =
     ''<tr><td style="font-weight:bold;padding:2px 6px;width:25%;">'' @ escapeHtml (fst e)
     @ ''</td><td style="padding:2px 6px;">'' @ valueToHtml (snd e) @ ''</td></tr>''\<close>

definition blockOpen :: string where
  \<open>blockOpen =
     ''<div class="export-properties-block" style="margin-bottom:1em;background:#f9f9f9;page-break-inside:avoid;">''
     @ ''<table style="width:100%;">''\<close>

text \<open>
  \<open>getPropertiesHtml\<close> deletes the omitted keys from the object it is given:
  \<open>remainingProps\<close> is the object as the call leaves it, the entries a row is written for.
\<close>

definition remainingProps :: "settings \<Rightarrow> props \<Rightarrow> props" where
  "remainingProps st ps = deleteOmitted st ps"

definition getPropertiesHtml :: "settings \<Rightarrow> props \<Rightarrow> string option" where
  "getPropertiesHtml st ps =
     (let rows = remainingProps st ps
      in if rows = [] then None
         else Some (blockOpen @ concat (map propertyRow rows) @ ''</table></div>''))"

text \<open>
  The callers (\<open>injectRenderedProperties\<close> and the post-processor) copy the frontmatter and
  delete its \<open>position\<close> key before the call: \<open>renderedProps\<close> are the entries of the
  fragment they get.
\<close>

definition renderedProps :: "settings \<Rightarrow> props \<Rightarrow> props" where
  "renderedProps st fm = remainingProps st (deleteKey ''position'' (objectAssign fm))"


subsection \<open>The post-processor of the Luxon variant\<close>

record settingsB =
  displayPropertiesB :: bool
  dateFormat :: string
  excludedProperties :: string
  addPropertiesBlockAfterHeading :: bool

text \<open>\<open>excludedProperties.split(',').map(s => s.trim()).filter(Boolean)\<close>.\<close>

definition excludedB :: "settingsB \<Rightarrow> string list" where
  "excludedB st = filter (\<lambda>p. p \<noteq> []) (map trim (split_on CHR '','' (excludedProperties st)))"

text \<open>
  \<open>Object.entries(cache.frontmatter).filter(([key]) => key !== 'tags' && !excluded.includes(key))\<close>:
  the entries a row is written for.
\<close>

definition propertyRowsB :: "settingsB \<Rightarrow> props \<Rightarrow> props" where
  "propertyRowsB st fm = filter (\<lambda>e. fst e \<noteq> ''tags'' \<and> fst e \<notin> set (excludedB st)) fm"

definition propertyRowB :: "(string \<Rightarrow> string \<Rightarrow> string option) \<Rightarrow> settingsB \<Rightarrow> string \<times> jsval \<Rightarrow> string" where
  \<open>propertyRowB luxon st e =
     (let displayValue = (if snd e = Null \<or> snd e = Undefined then Str [] else snd e)
      in ''<tr><td style="border:1px solid #000;padding:4px 8px;"><strong>'' @ escapeHtml (fst e)
         @ ''</strong></td><td style="border:1px solid #000;padding:4px 8px;">''
         @ valueToHtmlB luxon (dateFormat st) displayValue @ ''</td></tr>'')\<close>

text \<open>The \<open>innerHTML\<close> of the block the post-processor inserts, \<open>None\<close> when it returns before.\<close>

definition propertiesTableB :: "(string \<Rightarrow> string \<Rightarrow> string option) \<Rightarrow> settingsB \<Rightarrow> props \<Rightarrow> string option" where
  \<open>propertiesTableB luxon st fm =
     (let rows = concat (map (propertyRowB luxon st) (propertyRowsB st fm))
      in if rows = [] then None
         else Some (''<table style="border-collapse:collapse;margin-bottom:1em;"><tbody>'' @ rows
                    @ ''</tbody></table>''))\<close>

section \<open>Rendered document\<close>

text \<open>
  The part of the DOM the plugin reads and changes: elements with their tag, class list
  and children. \<open>Markup\<close> is a node no selector matches: text, kept as its markup. A
  document is the list of its top-level nodes, and an element is named by its path: the
  child positions from the top.
\<close>

datatype node = Element string "string list" "node list" | Markup string

type_synonym path = "nat list"

text \<open>The selectors the plugin uses: a class (\<open>.name\<close>) or a tag (\<open>h1\<close>).\<close>

datatype selector = ByClass string | ByTag string

fun matches :: "selector \<Rightarrow> string \<Rightarrow> string list \<Rightarrow> bool" where
  "matches (ByClass c) t cs = (c \<in> set cs)"
| "matches (ByTag g) t cs = (t = g)"

definition isBlock :: selector where
  "isBlock = ByClass ''export-properties-block''"

definition isSection :: selector where
  "isSection = ByClass ''markdown-preview-section''"

definition isH1 :: selector where
  "isH1 = ByTag ''h1''"

fun bump :: "path \<Rightarrow> path" where
  "bump [] = []"
| "bump (i # p) = Suc i # p"

text \<open>
  \<open>querySelector\<close>: the first element, in document order, among the given nodes and their
  descendants, that the selector matches. \<open>el.querySelector\<close> searches the children of
  \<open>el\<close>, \<open>document.querySelector\<close> the top-level nodes.
\<close>

fun querySelector :: "selector \<Rightarrow> node list \<Rightarrow> path option" where
  "querySelector sel [] = None"
| "querySelector sel (Markup m # ns) = map_option bump (querySelector sel ns)"
| "querySelector sel (Element t cs ch # ns) =
     (if matches sel t cs then Some [0]
      else (case querySelector sel ch of
              Some p \<Rightarrow> Some (0 # p)
            | None \<Rightarrow> map_option bump (querySelector sel ns)))"

text \<open>The children of the element at a path (the top-level nodes for the empty path).\<close>

fun childrenAt :: "node list \<Rightarrow> path \<Rightarrow> node list option" where
  "childrenAt ns [] = Some ns"
| "childrenAt ns (i # p) =
     (if i < length ns
      then (case ns ! i of
              Element t cs ch \<Rightarrow> childrenAt ch p
            | Markup m \<Rightarrow> None)
      else None)"

text \<open>The document with the children of the element at a path replaced.\<close>

fun updateChildren :: "(node list \<Rightarrow> node list) \<Rightarrow> path \<Rightarrow> node list \<Rightarrow> node list" where
  "updateChildren f [] ns = f ns"
| "updateChildren f (i # p) ns =
     (if i < length ns
      then (case ns ! i of
              Element t cs ch \<Rightarrow> ns[i := Element t cs (updateChildren f p ch)]
            | Markup m \<Rightarrow> ns)
      else ns)"

text \<open>
  \<open>el.insertAdjacentHTML('afterbegin', html)\<close>, \<open>el.insertAdjacentHTML('afterend', html)\<close>
  (given the nodes the parser builds from \<open>html\<close>) and \<open>el.remove()\<close> for the element at a
  path; the empty path names no element.
\<close>

definition insertAfterBegin :: "node list \<Rightarrow> path \<Rightarrow> node list \<Rightarrow> node list" where
  "insertAfterBegin bs p doc = (if p = [] then doc else updateChildren (\<lambda>ch. bs @ ch) p doc)"

definition insertAfterEnd :: "node list \<Rightarrow> path \<Rightarrow> node list \<Rightarrow> node list" where
  "insertAfterEnd bs p doc =
     (if p = [] then doc
      else updateChildren (\<lambda>ch. take (Suc (last p)) ch @ bs @ drop (Suc (last p)) ch) (butlast p) doc)"

definition removeNode :: "path \<Rightarrow> node list \<Rightarrow> node list" where
  "removeNode p doc =
     (if p = [] then doc
      else updateChildren (\<lambda>ch. take (last p) ch @ drop (Suc (last p)) ch) (butlast p) doc)"

text \<open>The number of elements a selector matches among the given nodes and their descendants.\<close>

fun countNodes :: "selector \<Rightarrow> node list \<Rightarrow> nat" where
  "countNodes sel [] = 0"
| "countNodes sel (Markup m # ns) = countNodes sel ns"
| "countNodes sel (Element t cs ch # ns) =
     (if matches sel t cs then 1 else 0) + countNodes sel ch + countNodes sel ns"

text \<open>
  The nodes the HTML parser builds from the fragment of \<open>getPropertiesHtml\<close>. The fragment
  starts with the opening tag of the wrapper \<open>div\<close>, so the parser builds that element,
  with the marker class, first (the section and the parent of a heading are flow
  containers, \<open>div\<close> elements in the host). \<open>valueToHtml\<close> passes the text of a value on as
  it is, so what stands inside the wrapper, and what follows it when the markup of a value
  closes the wrapper early, is for the parser to say: \<open>parse html\<close> gives the nodes inside
  the wrapper and the nodes after it.
\<close>

definition blockNodes :: "(string \<Rightarrow> node list \<times> node list) \<Rightarrow> string \<Rightarrow> node list" where
  "blockNodes parse html =
     Element ''div'' [''export-properties-block''] (fst (parse html)) # snd (parse html)"

section \<open>Plugin and host state\<close>

text \<open>
  A command's callback is a reference: one of the host's own functions (numbered), or one
  of the three closures \<open>onload\<close> installs. A thrown value is an \<open>exn\<close>. An asynchronous
  function runs to its end before the next one starts (the plugin is single-threaded and
  awaits each call), so it is a function from the state to its outcome and the new state.
\<close>

datatype callback = Host nat | PrintPatch | ExportPdfPatch | AppExportPdfPatch

datatype exn = Exn string

text \<open>
  The fields of the plugin (\<open>settings\<close>, \<open>currentFile\<close>, \<open>originalPrintCallback\<close>,
  \<open>isPrintPatched\<close>, \<open>fileBackups\<close>) and what it reads and writes of the host:
  \<^item> \<open>commands\<close>: the table \<open>app.commands.commands\<close>, each command with its optional
    \<open>callback\<close> (an absent table reads like an empty one);
  \<^item> \<open>frontmatter\<close>: \<open>metadataCache.getFileCache(file)?.frontmatter\<close>, by file path;
  \<^item> \<open>activeFile\<close>: \<open>workspace.getActiveFile()\<close>, a file being named by its vault path
    (a path holds the extension of the file, so it is not the name of a member of
    \<open>Object.prototype\<close>, and \<open>fileBackups[path]\<close> reads an own entry or \<open>undefined\<close>);
  \<^item> \<open>activeView\<close>: \<open>workspace.getActiveViewOfType(MarkdownView)\<close>, as the path of its
    \<open>contentEl\<close> in the document;
  \<^item> \<open>document\<close>: the DOM of the window, and \<open>parseFragment\<close>: its HTML parser on the
    fragments of the plugin (see \<open>blockNodes\<close>);
  \<^item> \<open>vault\<close>: the text of each file, and \<open>unwritable\<close>: the files whose \<open>vault.modify\<close>
    throws;
  \<^item> \<open>console\<close>: the messages of \<open>console.error\<close>, oldest first (debug output of
    \<open>console.log\<close> is left out).
\<close>

record state =
  settings :: settings
  currentFile :: "string option"
  originalPrintCallback :: "callback option"
  isPrintPatched :: bool
  fileBackups :: "string \<rightharpoonup> string"
  commands :: "string \<rightharpoonup> callback option"
  frontmatter :: "string \<rightharpoonup> props"
  activeFile :: "string option"
  activeView :: "path option"
  document :: "node list"
  parseFragment :: "string \<Rightarrow> node list \<times> node list"
  vault :: "string \<rightharpoonup> string"
  unwritable :: "string list"
  console :: "string list"

type_synonym 'a outcome = "(exn + 'a) \<times> state"

type_synonym action = "state \<Rightarrow> jsval outcome"

definition consoleError :: "string \<Rightarrow> state \<Rightarrow> state" where
  "consoleError msg s = s\<lparr>console := console s @ [msg]\<rparr>"

text \<open>\<open>vault.read(file)\<close> throws when the file is gone; \<open>vault.modify(file, text)\<close> throws
  when the file is gone or cannot be written, and changes nothing then.\<close>

definition vault_read :: "string \<Rightarrow> state \<Rightarrow> exn + string" where
  "vault_read file s =
     (case vault s file of
        None \<Rightarrow> Inl (Exn ''vault.read failed'')
      | Some t \<Rightarrow> Inr t)"

definition vault_modify :: "string \<Rightarrow> string \<Rightarrow> state \<Rightarrow> exn + state" where
  "vault_modify file t s =
     (if vault s file = None \<or> file \<in> set (unwritable s)
      then Inl (Exn ''vault.modify failed'')
      else Inr (s\<lparr>vault := (vault s)(file \<mapsto> t)\<rparr>))"

section \<open>File-patch fallback\<close>

text \<open>
  \<open>Array.isArray(value) ? value.join(', ') : String(value)\<close>; \<open>join\<close> writes \<open>null\<close> and
  \<open>undefined\<close> elements as the empty string.
\<close>

definition valueText :: "jsval \<Rightarrow> string" where
  "valueText v =
     (case v of
        Arr xs \<Rightarrow>
          joinWith '', '' (map (\<lambda>x. if x = Null \<or> x = Undefined then [] else jsString x) xs)
      | _ \<Rightarrow> jsString v)"

definition markdownRow :: "string \<times> jsval \<Rightarrow> string" where
  "markdownRow e =
     ''- **'' @ escapeHtml (fst e) @ ''**: '' @ escapeHtml (valueText (snd e)) @ [newline]"

definition getPropertiesMarkdown :: "settings \<Rightarrow> props \<Rightarrow> string option" where
  "getPropertiesMarkdown st ps =
     (let rows = remainingProps st ps
      in if rows = [] then None
         else Some (''<!-- export-properties-start -->'' @ [newline]
                    @ ''**Properties**'' @ [newline, newline]
                    @ concat (map markdownRow rows)
                    @ [newline] @ ''<!-- export-properties-end -->'' @ [newline]))"

text \<open>
  \<open>original.search(/^#\s/m)\<close>: the first position at the start of the text or after a line
  terminator where \<open>#\<close> and a white-space character stand. The flag says whether the
  position read is a line start; the result counts from the position read.
\<close>

fun searchHeadingFrom :: "bool \<Rightarrow> string \<Rightarrow> nat option" where
  "searchHeadingFrom b [] = None"
| "searchHeadingFrom b (c # cs) =
     (if b \<and> c = CHR ''#'' \<and> cs \<noteq> [] \<and> isSpace (hd cs) then Some 0
      else map_option Suc (searchHeadingFrom (isLineTerminator c) cs))"

definition searchHeading :: "string \<Rightarrow> nat option" where
  "searchHeading s = searchHeadingFrom True s"

text \<open>\<open>original.indexOf('\n', idx)\<close>.\<close>

definition indexOfNewline :: "string \<Rightarrow> nat \<Rightarrow> nat option" where
  "indexOfNewline s idx =
     (let k = length (takeWhile (\<lambda>c. c \<noteq> newline) (drop idx s))
      in if k < length (drop idx s) then Some (idx + k) else None)"

text \<open>The text \<open>patchFileForExport\<close> writes (\<open>newContent\<close>).\<close>

definition newContent :: "settings \<Rightarrow> string \<Rightarrow> string \<Rightarrow> string" where
  "newContent st md original =
     (if insertAfterHeading st
      then (case searchHeading original of
              Some idx \<Rightarrow>
                (case indexOfNewline original idx of
                   None \<Rightarrow> original @ [newline] @ md
                 | Some endOfLine \<Rightarrow>
                     take (endOfLine + 1) original @ md @ drop (endOfLine + 1) original)
            | None \<Rightarrow> md @ original)
      else md @ original)"

text \<open>The \<open>catch\<close> of \<open>patchFileForExport\<close>: log, delete the backup entry, throw again.\<close>

definition patchFailed :: "string \<Rightarrow> exn \<Rightarrow> state \<Rightarrow> unit outcome" where
  "patchFailed file e s =
     (Inl e,
      (consoleError ''Properties-on-export: error patching file for export'' s)
        \<lparr>fileBackups := (fileBackups s)(file := None)\<rparr>)"

definition patchFileForExport :: "string \<Rightarrow> props \<Rightarrow> state \<Rightarrow> unit outcome" where
  "patchFileForExport file ps s =
     (case getPropertiesMarkdown (settings s) (objectAssign ps) of
        None \<Rightarrow> (Inr (), s)
      | Some md \<Rightarrow>
          (case vault_read file s of
             Inl e \<Rightarrow> patchFailed file e s
           | Inr original \<Rightarrow>
               (let s1 = s\<lparr>fileBackups := (fileBackups s)(file \<mapsto> original)\<rparr>
                in case vault_modify file (newContent (settings s) md original) s1 of
                     Inl e \<Rightarrow> patchFailed file e s1
                   | Inr s2 \<Rightarrow> (Inr (), s2))))"

section \<open>Injection controller\<close>

text \<open>
  The preview section \<open>injectRenderedProperties\<close> inserts into: the first one inside the
  view's \<open>contentEl\<close>, else the first one of the document. A \<open>contentEl\<close> that is not in
  the document has no descendants in the model.
\<close>

definition queryWithin :: "selector \<Rightarrow> path \<Rightarrow> node list \<Rightarrow> path option" where
  "queryWithin sel el doc =
     (case childrenAt doc el of
        None \<Rightarrow> None
      | Some ch \<Rightarrow> map_option (\<lambda>p. el @ p) (querySelector sel ch))"

definition topSection :: "path \<Rightarrow> node list \<Rightarrow> path option" where
  "topSection contentEl doc =
     (case queryWithin isSection contentEl doc of
        Some p \<Rightarrow> Some p
      | None \<Rightarrow> querySelector isSection doc)"

text \<open>The placement of the parsed fragment \<open>bs\<close> in the section at path \<open>sec\<close>.\<close>

definition place :: "settings \<Rightarrow> node list \<Rightarrow> path \<Rightarrow> node list \<Rightarrow> node list" where
  "place st bs sec doc =
     (if insertAfterHeading st
      then (case queryWithin isH1 sec doc of
              Some firstHeading \<Rightarrow> insertAfterEnd bs firstHeading doc
            | None \<Rightarrow> insertAfterBegin bs sec doc)
      else insertAfterBegin bs sec doc)"

definition injectRenderedProperties :: "state \<Rightarrow> unit outcome" where
  "injectRenderedProperties s =
     (case currentFile s of
        None \<Rightarrow> (Inr (), s)
      | Some file \<Rightarrow>
     (case frontmatter s file of
        None \<Rightarrow> (Inr (), s)
      | Some fm \<Rightarrow>
     if \<not> displayProperties (settings s) then (Inr (), s)
     else
     (case getPropertiesHtml (settings s) (deleteKey ''position'' (objectAssign fm)) of
        None \<Rightarrow> (Inr (), s)
      | Some html \<Rightarrow>
     (case activeView s of
        None \<Rightarrow> (Inr (), s)
      | Some contentEl \<Rightarrow>
     (case topSection contentEl (document s) of
        None \<Rightarrow>
          (case patchFileForExport file (renderedProps (settings s) fm) s of
             (Inl e, s') \<Rightarrow>
               (Inr (), consoleError ''Properties-on-export: failed to patch file for export'' s')
           | (Inr u, s') \<Rightarrow> (Inr (), s'))
      | Some sec \<Rightarrow>
          if querySelector isBlock (document s) \<noteq> None then (Inr (), s)
          else (Inr (),
                s\<lparr>document :=
                    place (settings s) (blockNodes (parseFragment s) html) sec (document s)\<rparr>))))))"

text \<open>The last \<open>try\<close> block of \<open>removeInjectedProperties\<close>: the restore of a patched file.
  \<open>this.fileBackups[active.path]\<close> is tested for truth, which the empty text is not.\<close>

definition restoreBackup :: "state \<Rightarrow> state" where
  "restoreBackup s =
     (case activeFile s of
        None \<Rightarrow> s
      | Some active \<Rightarrow>
          (case fileBackups s active of
             None \<Rightarrow> s
           | Some original \<Rightarrow>
               if original = [] then s
               else (case vault_modify active original s of
                       Inl e \<Rightarrow>
                         consoleError
                           ''Properties-on-export: failed to restore original file after export'' s
                     | Inr s' \<Rightarrow> s'\<lparr>fileBackups := (fileBackups s')(active := None)\<rparr>)))"

definition removeInjectedProperties :: "state \<Rightarrow> unit outcome" where
  "removeInjectedProperties s =
     (case activeView s of
        None \<Rightarrow> (Inr (), s)
      | Some contentEl \<Rightarrow>
          (case queryWithin isBlock contentEl (document s) of
             Some block \<Rightarrow> (Inr (), s\<lparr>document := removeNode block (document s)\<rparr>)
           | None \<Rightarrow>
               (let s1 = (case querySelector isBlock (document s) of
                            Some docBlock \<Rightarrow> s\<lparr>document := removeNode docBlock (document s)\<rparr>
                          | None \<Rightarrow> s)
                in (Inr (), restoreBackup s1))))"

section \<open>Trigger coordinator\<close>

text \<open>\<open>try { await f() } catch (e) { console.error(msg, e) }\<close>: the state after it.\<close>

definition caught :: "string \<Rightarrow> unit outcome \<Rightarrow> state" where
  "caught msg r =
     (case r of
        (Inl e, s) \<Rightarrow> consoleError msg s
      | (Inr u, s) \<Rightarrow> s)"

text \<open>
  The closures \<open>onload\<close> installs. \<open>call\<close> is the host's way to run a callback reference:
  \<open>call cb s\<close> is the value \<open>cb\<close> returns or the exception it throws, and the state it
  leaves. Each closure injects, runs the saved \<open>originalPrintCallback\<close> if there is one,
  and removes in its \<open>finally\<close> block, which neither returns nor throws: the outcome of
  the \<open>try\<close> block is the outcome of the closure. The export closures return nothing.
\<close>

definition printPatch :: "(callback \<Rightarrow> action) \<Rightarrow> action" where
  "printPatch call s =
     (let s1 = caught ''Error injecting properties before print'' (injectRenderedProperties s);
          r = (case originalPrintCallback s1 of
                 Some cb \<Rightarrow> call cb s1
               | None \<Rightarrow> (Inr Undefined, s1))
      in (fst r,
          caught ''Error removing injected properties after print''
            (removeInjectedProperties (snd r))))"

definition exportPatch :: "string \<Rightarrow> (callback \<Rightarrow> action) \<Rightarrow> action" where
  "exportPatch name call s =
     (let s1 = caught (''inject before '' @ name) (injectRenderedProperties s);
          r = (case originalPrintCallback s1 of
                 Some cb \<Rightarrow> call cb s1
               | None \<Rightarrow> (Inr Undefined, s1))
      in (case fst r of Inl e \<Rightarrow> Inl e | Inr v \<Rightarrow> Inr Undefined,
          caught (''remove after '' @ name) (removeInjectedProperties (snd r))))"

definition exportPdfPatch :: "(callback \<Rightarrow> action) \<Rightarrow> action" where
  "exportPdfPatch = exportPatch ''export-pdf''"

definition appExportPdfPatch :: "(callback \<Rightarrow> action) \<Rightarrow> action" where
  "appExportPdfPatch = exportPatch ''app:export-pdf''"

text \<open>What the host runs when it invokes a callback reference.\<close>

definition invoke :: "(callback \<Rightarrow> action) \<Rightarrow> callback \<Rightarrow> action" where
  "invoke call cb =
     (case cb of
        Host n \<Rightarrow> call (Host n)
      | PrintPatch \<Rightarrow> printPatch call
      | ExportPdfPatch \<Rightarrow> exportPdfPatch call
      | AppExportPdfPatch \<Rightarrow> appExportPdfPatch call)"

text \<open>
  The part of \<open>onload\<close> that changes the state: the current file and the three command
  patches. (Loading the settings, the settings tab and the registration of the event
  handlers and of the post-processor are the host's.)
\<close>

definition patchPrint :: "state \<Rightarrow> state" where
  "patchPrint s =
     (case commands s ''editor:print'' of
        None \<Rightarrow> s
      | Some cb \<Rightarrow>
          if isPrintPatched s then s
          else s\<lparr>originalPrintCallback := cb,
                 commands := (commands s)(''editor:print'' \<mapsto> Some PrintPatch),
                 isPrintPatched := True\<rparr>)"

definition patchExport :: "string \<Rightarrow> callback \<Rightarrow> state \<Rightarrow> state" where
  "patchExport name closure s =
     (case commands s name of
        None \<Rightarrow> s
      | Some cb \<Rightarrow> s\<lparr>commands := (commands s)(name \<mapsto> Some closure)\<rparr>)"

definition onload :: "state \<Rightarrow> state" where
  "onload s =
     patchExport ''app:export-pdf'' AppExportPdfPatch
       (patchExport ''export-pdf'' ExportPdfPatch
          (patchPrint (s\<lparr>currentFile := activeFile s\<rparr>)))"

definition onunload :: "state \<Rightarrow> state" where
  "onunload s =
     (case commands s ''editor:print'' of
        None \<Rightarrow> s
      | Some cb \<Rightarrow>
          if isPrintPatched s
          then (case originalPrintCallback s of
                  Some orig \<Rightarrow> s\<lparr>commands := (commands s)(''editor:print'' \<mapsto> Some orig)\<rparr>
                | None \<Rightarrow> s)
          else s)"

text \<open>
  The plugin as constructed (\<open>DEFAULT_SETTINGS\<close> and the field initialisers of the class)
  in a host with no command, no file, no view and an empty document. Its parser is the
  one of a fragment whose values hold no markup: the table stays text inside the wrapper.
\<close>

definition DEFAULT_SETTINGS :: settings where
  "DEFAULT_SETTINGS =
     \<lparr>displayProperties = True, omittedProperties = [], insertAfterHeading = False\<rparr>"

definition newPlugin :: state where
  "newPlugin =
     \<lparr>settings = DEFAULT_SETTINGS,
      currentFile = None,
      originalPrintCallback = None,
      isPrintPatched = False,
      fileBackups = Map.empty,
      commands = Map.empty,
      frontmatter = Map.empty,
      activeFile = None,
      activeView = None,
      document = [],
      parseFragment = (\<lambda>html. ([Markup html], [])),
      vault = Map.empty,
      unwritable = [],
      console = []\<rparr>"

text \<open>\<open>DEFAULT_SETTINGS\<close> of the Luxon variant.\<close>

definition DEFAULT_SETTINGS_B :: settingsB where
  "DEFAULT_SETTINGS_B =
     \<lparr>displayPropertiesB = True, dateFormat = ''yyyy-MM-dd'', excludedProperties = [],
      addPropertiesBlockAfterHeading = False\<rparr>"

text \<open>
  A note with one property, open in a view whose content shows no preview section (the
  situation in which \<open>injectRenderedProperties\<close> patches the file), with text \<open>t\<close>.
\<close>

definition previewless :: "string \<Rightarrow> state" where
  "previewless t =
     newPlugin\<lparr>currentFile := Some ''note.md'', activeFile := Some ''note.md'',
       frontmatter := [''note.md'' \<mapsto> [(''title'', Str ''Report'')]],
       vault := [''note.md'' \<mapsto> t],
       activeView := Some [0],
       document := [Element ''div'' [''view-content''] []]\<rparr>"

section \<open>Notions used in the statements\<close>

text \<open>The node at a path; the empty path names none.\<close>

fun nodeAt :: "node list \<Rightarrow> path \<Rightarrow> node option" where
  "nodeAt ns [] = None"
| "nodeAt ns [i] = (if i < length ns then Some (ns ! i) else None)"
| "nodeAt ns (i # j # p) =
     (if i < length ns
      then (case ns ! i of
              Element t cs ch \<Rightarrow> nodeAt ch (j # p)
            | Markup m \<Rightarrow> None)
      else None)"

text \<open>
  The number of injected blocks (elements with the marker class) in the document, and the
  state after one \<open>inject\<close> and after one \<open>remove\<close>.
\<close>

definition blockCount :: "state \<Rightarrow> nat" where
  "blockCount s = countNodes isBlock (document s)"

definition injected :: "state \<Rightarrow> state" where
  "injected s = snd (injectRenderedProperties s)"

definition removed :: "state \<Rightarrow> state" where
  "removed s = snd (removeInjectedProperties s)"






text \<open>The number of elements a selector matches inside the element at a path.\<close>

definition countWithin :: "selector \<Rightarrow> path \<Rightarrow> node list \<Rightarrow> nat" where
  "countWithin sel el doc =
     (case childrenAt doc el of
        None \<Rightarrow> 0
      | Some ch \<Rightarrow> countNodes sel ch)"



text \<open>The note of \<open>previewless\<close> in a view that shows a preview section with a heading.\<close>

definition withPreview :: state where
  "withPreview =
     (previewless (''# Head'' @ [newline] @ ''body''))
       \<lparr>document :=
          [Element ''div'' [''view-content'']
             [Element ''div'' [''markdown-preview-section'']
                [Element ''h1'' [] [], Element ''p'' [] []]]]\<rparr>"

text \<open>The note of \<open>previewless\<close> under a heading, with \<open>insertAfterHeading\<close> switched on.\<close>

definition headingNote :: state where
  "headingNote =
     (previewless (''# Head'' @ [newline] @ ''body''))
       \<lparr>settings := DEFAULT_SETTINGS\<lparr>insertAfterHeading := True\<rparr>\<rparr>"

text \<open>
  The note of \<open>previewless\<close> with a saved print callback, and two behaviours of the host's
  print function: it throws, and it closes the view before it throws.
\<close>

definition printing :: state where
  "printing = (previewless ''# Head'')\<lparr>originalPrintCallback := Some (Host 0)\<rparr>"

definition throwingPrint :: "callback \<Rightarrow> action" where
  "throwingPrint cb s = (Inl (Exn ''print failed''), s)"

definition failingPrint :: "callback \<Rightarrow> action" where
  "failingPrint cb s = (Inl (Exn ''print failed''), s\<lparr>activeView := None\<rparr>)"

text \<open>
  A host with the three commands, each with a callback of its own, and two ways the host
  may run a callback reference: they agree on the print callback \<open>Host 1\<close> only.
\<close>

definition hostCommands :: state where
  "hostCommands =
     newPlugin\<lparr>commands :=
       [''editor:print'' \<mapsto> Some (Host 1), ''export-pdf'' \<mapsto> Some (Host 2),
        ''app:export-pdf'' \<mapsto> Some (Host 3)]\<rparr>"

definition hostRun :: "callback \<Rightarrow> action" where
  "hostRun cb s =
     (if cb = Host 1 then (Inr (Str ''printed''), consoleError ''host: print'' s)
      else (Inr (Str ''exported''), consoleError ''host: export'' s))"

definition printOnly :: "callback \<Rightarrow> action" where
  "printOnly cb s =
     (if cb = Host 1 then (Inr (Str ''printed''), consoleError ''host: print'' s)
      else (Inl (Exn ''not the print callback''), s))"

text \<open>
  The note of \<open>withPreview\<close> with a value that holds markup with the marker class, and what
  a browser builds from its fragment: the element of the value stands in the second cell.
\<close>

definition markerNote :: state where
  \<open>markerNote =
     withPreview
       \<lparr>frontmatter :=
          [''note.md'' \<mapsto> [(''title'', Str ''<div class="export-properties-block">x</div>'')]],
        parseFragment :=
          (\<lambda>html.
             ([Element ''table'' []
                 [Element ''tbody'' []
                    [Element ''tr'' []
                       [Element ''td'' [] [Markup ''title''],
                        Element ''td'' []
                          [Element ''div'' [''export-properties-block''] [Markup ''x'']]]]]],
              []))\<rparr>\<close>

section \<open>Properties of the formatter and the renderer\<close>

lemma set_deleteKey: "set (deleteKey k ps) = {e \<in> set ps. fst e \<noteq> k}"
  by (auto simp: deleteKey_def)

lemma set_foldl_deleteKey:
  "set (foldl (\<lambda>acc p. deleteKey p acc) ps ks) = {e \<in> set ps. fst e \<notin> set ks}"
  by (induction ks arbitrary: ps) (auto simp: set_deleteKey)

lemma set_remainingProps:
  "set (remainingProps st ps) = {e \<in> set ps. fst e \<notin> set (omittedProps (omittedProperties st))}"
  by (simp add: remainingProps_def deleteOmitted_def set_foldl_deleteKey)

text \<open>
  In the variant with the file-patch fallback the fragment has no row for \<open>position\<close> and
  none for an omitted name: the rows are written for \<open>renderedProps\<close>.
\<close>

lemma renderedProps_keys:
  assumes "k \<in> fst ` set (renderedProps st fm)"
  shows "k \<noteq> ''position'' \<and> k \<notin> set (omittedProps (omittedProperties st))"
  using assms by (auto simp: renderedProps_def objectAssign_def set_remainingProps set_deleteKey)

text \<open>In the Luxon variant no row is written for \<open>tags\<close> or for an excluded name.\<close>

lemma propertyRowsB_keys:
  assumes "k \<in> fst ` set (propertyRowsB st fm)"
  shows "k \<noteq> ''tags'' \<and> k \<notin> set (excludedB st)"
  using assms by (auto simp: propertyRowsB_def)

text \<open>
  C1 (no row for \<open>position\<close> or for an excluded name). The post-processor of the Luxon
  variant filters \<open>tags\<close> and the excluded names only: with the default settings a
  frontmatter with the key \<open>position\<close> gets a row for it, where the other variant deletes
  the key before rendering (\<open>renderedProps_keys\<close>).
\<close>

theorem C1_position_row_in_luxon_variant:
  \<open>map fst (propertyRowsB DEFAULT_SETTINGS_B
              [(''position'', Obj ''{}''), (''tags'', Arr [Str ''x'']), (''title'', Str ''Report'')])
     = [''position'', ''title'']
   \<and> propertiesTableB luxon DEFAULT_SETTINGS_B [(''position'', Str ''top'')] =
       Some ''<table style="border-collapse:collapse;margin-bottom:1em;"><tbody><tr><td style="border:1px solid #000;padding:4px 8px;"><strong>position</strong></td><td style="border:1px solid #000;padding:4px 8px;">top</td></tr></tbody></table>''\<close>
  by code_simp

text \<open>The Luxon variant escapes the text \<open><script>\<close>.\<close>

lemma valueToHtmlB_script: "valueToHtmlB luxon fmt (Str ''<script>'') = ''&lt;script&gt;''"
  by code_simp

text \<open>
  The Luxon variant decides what is a link by \<open>part.startsWith('<a ')\<close>: a text that starts
  so and is no link is not escaped either.
\<close>

lemma valueToHtmlB_unescaped:
  "valueToHtmlB luxon fmt (Str ''<a <script>alert(1)</script>'') = ''<a <script>alert(1)</script>''"
  by code_simp

text \<open>
  C3 (all non-link text is HTML-escaped; \<open>format("<script>")\<close> has no literal \<open><\<close> or \<open>>\<close>).
  \<open>valueToHtml\<close> of the variant with the file-patch fallback escapes the date and the text
  of a link only: it returns the text \<open><script>\<close> as it is.
\<close>

theorem C3_script_not_escaped:
  "valueToHtml (Str ''<script>'') = ''<script>''
   \<and> CHR ''<'' \<in> set (valueToHtml (Str ''<script>''))
   \<and> CHR ''>'' \<in> set (valueToHtml (Str ''<script>''))"
  by code_simp

text \<open>The Luxon variant shows the display text and puts the target into \<open>href\<close>.\<close>

lemma valueToHtmlB_wikilink:
  \<open>valueToHtmlB luxon fmt (Str ''[[Note A|shown]]'') = ''<a href="#Note A" class="internal-link">shown</a>''
   \<and> valueToHtmlB luxon fmt (Str ''[[Note A]]'') = ''<a href="#Note A" class="internal-link">Note A</a>''\<close>
  by code_simp

text \<open>
  C7 (\<open>[[Note A|shown]]\<close> gives a link with the visible text \<open>shown\<close> and a target that
  references \<open>Note A\<close>). \<open>valueToHtml\<close> of the variant with the file-patch fallback has no
  display-text syntax: the visible text is everything between the brackets, and \<open>href\<close> is
  \<open>#\<close> whatever the target. For \<open>[[Note A]]\<close> the visible text is \<open>Note A\<close>, as claimed.
\<close>

theorem C7_display_text_not_split:
  \<open>valueToHtml (Str ''[[Note A|shown]]'') =
     ''<a class="internal-link" href="#" style="color:var(--text-accent, #388bfd);text-decoration:underline;">Note A|shown</a>''
   \<and> valueToHtml (Str ''[[Note A]]'') =
     ''<a class="internal-link" href="#" style="color:var(--text-accent, #388bfd);text-decoration:underline;">Note A</a>''\<close>
  by code_simp

section \<open>Counting elements of the document\<close>

lemma countNodes_append: "countNodes P (xs @ ys) = countNodes P xs + countNodes P ys"
  by (induction P xs rule: countNodes.induct) auto

lemma countNodes_split:
  assumes "i < length ns"
  shows "countNodes P ns =
         countNodes P (take i ns) + (countNodes P [ns ! i] + countNodes P (drop (Suc i) ns))"
proof -
  have "take i ns @ [ns ! i] @ drop (Suc i) ns = ns"
    using assms by (simp add: id_take_nth_drop [symmetric])
  moreover have "countNodes P (take i ns @ [ns ! i] @ drop (Suc i) ns) =
         countNodes P (take i ns) + (countNodes P [ns ! i] + countNodes P (drop (Suc i) ns))"
    by (simp only: countNodes_append)
  ultimately show ?thesis by simp
qed




lemma countNodes_Cons: "countNodes P (b # ns) = countNodes P [b] + countNodes P ns"
  using countNodes_append [of P "[b]" ns] by simp


lemma querySelector_None: "querySelector P ns = None \<longleftrightarrow> countNodes P ns = 0"
  by (induction P ns rule: querySelector.induct) (auto split: option.splits)

lemma nodeAt_bump: "p \<noteq> [] \<Longrightarrow> nodeAt (n # ns) (bump p) = nodeAt ns p"
  by (cases p; cases "tl p") auto

lemma querySelector_Some:
  "querySelector P ns = Some p \<Longrightarrow> \<exists>t cs ch. nodeAt ns p = Some (Element t cs ch) \<and> matches P t cs"
proof (induction P ns arbitrary: p rule: querySelector.induct)
  case (1 P)
  then show ?case by simp
next
  case (2 P m ns)
  then obtain q where q: "querySelector P ns = Some q" and p: "p = bump q" by auto
  from "2.IH" [OF q] obtain t cs ch where "nodeAt ns q = Some (Element t cs ch)" "matches P t cs" by blast
  moreover from this have "q \<noteq> []" by auto
  ultimately show ?case using p by (auto simp: nodeAt_bump)
next
  case (3 P t cs ch ns)
  show ?case
  proof (cases "matches P t cs")
    case True
    with "3.prems" show ?thesis by auto
  next
    case False
    show ?thesis
    proof (cases "querySelector P ch")
      case (Some q)
      with False "3.prems" have p: "p = 0 # q" by simp
      from "3.IH"(1) [OF False Some] obtain t' cs' ch' where
        n: "nodeAt ch q = Some (Element t' cs' ch')" "matches P t' cs'" by blast
      then have "q \<noteq> []" by auto
      then obtain j r where "q = j # r" by (cases q) auto
      with n p show ?thesis by auto
    next
      case None
      with False "3.prems" obtain q where q: "querySelector P ns = Some q" and p: "p = bump q" by auto
      from "3.IH"(2) [OF False None q] obtain t' cs' ch' where
        n: "nodeAt ns q = Some (Element t' cs' ch')" "matches P t' cs'" by blast
      moreover from this have "q \<noteq> []" by auto
      ultimately show ?thesis using p by (auto simp: nodeAt_bump)
    qed
  qed
qed



lemma nodeAt_append:
  "childrenAt ns p = Some ch \<Longrightarrow> nodeAt ch q = Some n \<Longrightarrow> nodeAt ns (p @ q) = Some n"
proof (induction p arbitrary: ns)
  case Nil
  then show ?case by simp
next
  case (Cons i p)
  from Cons.prems(1) obtain t cs c where i: "i < length ns" "ns ! i = Element t cs c" "childrenAt c p = Some ch"
    by (auto split: if_splits node.splits)
  from Cons.IH [OF i(3) Cons.prems(2)] have "nodeAt c (p @ q) = Some n" .
  moreover from Cons.prems(2) have "q \<noteq> []" by auto
  then obtain j r where "p @ q = j # r" by (cases "p @ q") auto
  ultimately show ?case using i by auto
qed

section \<open>Injection and removal\<close>

lemma queryWithin_Some:
  assumes "queryWithin sel el doc = Some p"
  shows "\<exists>t cs ch. nodeAt doc p = Some (Element t cs ch) \<and> matches sel t cs"
proof -
  from assms obtain ch q where ch: "childrenAt doc el = Some ch"
    and q: "querySelector sel ch = Some q" and p: "p = el @ q"
    by (auto simp: queryWithin_def split: option.splits)
  from querySelector_Some [OF q] obtain t cs c where
    "nodeAt ch q = Some (Element t cs c)" "matches sel t cs" by blast
  with nodeAt_append [OF ch] p show ?thesis by blast
qed

lemma topSection_Some:
  assumes "topSection v doc = Some sec"
  shows "\<exists>t cs ch. nodeAt doc sec = Some (Element t cs ch)"
proof (cases "queryWithin isSection v doc")
  case None
  with assms have "querySelector isSection doc = Some sec" by (simp add: topSection_def)
  from querySelector_Some [OF this] show ?thesis by blast
next
  case (Some p)
  with assms have "p = sec" by (simp add: topSection_def)
  with queryWithin_Some [OF Some] show ?thesis by blast
qed


lemma nodeAt_count:
  "nodeAt ns p = Some (Element t cs ch) \<Longrightarrow> matches sel t cs \<Longrightarrow> countNodes sel ns \<ge> 1"
proof (induction ns p rule: nodeAt.induct)
  case (1 ns)
  then show ?case by simp
next
  case (2 ns i)
  then have i: "i < length ns" and n: "ns ! i = Element t cs ch" by (auto split: if_splits)
  from countNodes_split [OF i, of sel] n "2.prems"(2) show ?case by simp
next
  case (3 ns i j p)
  then obtain t' cs' ch' where i: "i < length ns" and n: "ns ! i = Element t' cs' ch'"
    and r: "nodeAt ch' (j # p) = Some (Element t cs ch)"
    by (auto split: if_splits node.splits)
  from "3.IH" [OF i n r "3.prems"(2)] have "countNodes sel ch' \<ge> 1" .
  with countNodes_split [OF i, of sel] n show ?case by simp
qed



lemma queryWithin_None_iff: "queryWithin sel el doc = None \<longleftrightarrow> countWithin sel el doc = 0"
  by (auto simp: queryWithin_def countWithin_def querySelector_None split: option.splits)









text \<open>What a patch, an \<open>inject\<close> and a \<open>remove\<close> leave alone.\<close>

lemma patchFileForExport_frame:
  assumes "patchFileForExport file ps s = (r, s')"
  shows "document s' = document s \<and> settings s' = settings s \<and> currentFile s' = currentFile s
       \<and> frontmatter s' = frontmatter s \<and> activeView s' = activeView s
       \<and> activeFile s' = activeFile s \<and> commands s' = commands s
       \<and> originalPrintCallback s' = originalPrintCallback s \<and> isPrintPatched s' = isPrintPatched s
       \<and> unwritable s' = unwritable s \<and> parseFragment s' = parseFragment s"
  using assms
  by (auto simp: patchFileForExport_def patchFailed_def consoleError_def vault_modify_def Let_def
      split: option.splits sum.splits if_splits)

lemma injected_frame:
  "settings (injected s) = settings s \<and> currentFile (injected s) = currentFile s
   \<and> frontmatter (injected s) = frontmatter s \<and> activeView (injected s) = activeView s
   \<and> activeFile (injected s) = activeFile s \<and> commands (injected s) = commands s
   \<and> originalPrintCallback (injected s) = originalPrintCallback s
   \<and> isPrintPatched (injected s) = isPrintPatched s \<and> unwritable (injected s) = unwritable s
   \<and> parseFragment (injected s) = parseFragment s"
  unfolding injected_def injectRenderedProperties_def
  by (auto simp: consoleError_def split: option.splits sum.splits prod.splits dest!: patchFileForExport_frame)

















lemma injectRenderedProperties_returns: "fst (injectRenderedProperties s) = Inr ()"
  unfolding injectRenderedProperties_def
  by (auto split: option.splits sum.splits prod.splits)

lemma removeInjectedProperties_returns: "fst (removeInjectedProperties s) = Inr ()"
  unfolding removeInjectedProperties_def
  by (auto simp: Let_def split: option.splits)













text \<open>
  A property value that holds the markup of a marker element: the browser parses it, so
  that one \<open>inject\<close> leaves two elements of the marker class in the document.
\<close>

lemma marker_in_value: "blockCount markerNote = 0 \<and> blockCount (injected markerNote) = 2"
  by code_simp

text \<open>
  With no preview section a second \<open>inject\<close> in a row patches the file once more: the file
  holds the block twice, and the backup holds the patched text, not the original one.
\<close>

lemma second_fallback_inject:
  "vault headingNote ''note.md'' = Some (''# Head'' @ [newline] @ ''body'')
   \<and> fileBackups (injected headingNote) ''note.md'' = Some (''# Head'' @ [newline] @ ''body'')
   \<and> fileBackups (injected (injected headingNote)) ''note.md''
       = vault (injected headingNote) ''note.md''
   \<and> vault (injected (injected headingNote)) ''note.md''
       \<noteq> vault (injected headingNote) ''note.md''"
  by code_simp

text \<open>
  A frontmatter whose only key is \<open>__proto__\<close>: the copy has no entry, and \<open>inject\<close> neither
  inserts a block nor patches the file.
\<close>

lemma proto_key_not_rendered:
  \<open>renderedProps DEFAULT_SETTINGS [(''__proto__'', Str ''x'')] = []
   \<and> blockCount (injected (withPreview\<lparr>frontmatter := [''note.md'' \<mapsto> [(''__proto__'', Str ''x'')]]\<rparr>)) = 0
   \<and> fileBackups
        (injected ((previewless ''body'')\<lparr>frontmatter := [''note.md'' \<mapsto> [(''__proto__'', Str ''x'')]]\<rparr>))
        ''note.md'' = None
   \<and> vault
        (injected ((previewless ''body'')\<lparr>frontmatter := [''note.md'' \<mapsto> [(''__proto__'', Str ''x'')]]\<rparr>))
        ''note.md'' = Some ''body''\<close>
  by code_simp




section \<open>The file-patch fallback\<close>



















text \<open>Round trip of the patch for a text that is not empty.\<close>

lemma patch_restore_roundtrip:
  assumes "vault s file = Some T" "T \<noteq> []" "file \<notin> set (unwritable s)"
    "activeFile s = Some file" "getPropertiesMarkdown (settings s) (objectAssign ps) = Some md"
  shows "vault (snd (patchFileForExport file ps s)) = (vault s)(file \<mapsto> newContent (settings s) md T)
       \<and> fileBackups (snd (patchFileForExport file ps s)) file = Some T
       \<and> vault (restoreBackup (snd (patchFileForExport file ps s))) = vault s
       \<and> fileBackups (restoreBackup (snd (patchFileForExport file ps s))) file = None"
proof -
  let ?s1 = "s\<lparr>fileBackups := (fileBackups s)(file \<mapsto> T)\<rparr>"
  let ?s2 = "?s1\<lparr>vault := (vault s)(file \<mapsto> newContent (settings s) md T)\<rparr>"
  have p: "patchFileForExport file ps s = (Inr (), ?s2)"
    using assms by (simp add: patchFileForExport_def vault_read_def vault_modify_def)
  have "vault (restoreBackup ?s2) = (vault s)(file \<mapsto> T)"
    using assms by (simp add: restoreBackup_def vault_modify_def)
  also have "\<dots> = vault s" using assms(1) by (simp add: fun_upd_idem)
  finally have v: "vault (restoreBackup ?s2) = vault s" .
  have b: "fileBackups (restoreBackup ?s2) file = None"
    using assms by (simp add: restoreBackup_def vault_modify_def)
  show ?thesis using p v b by simp
qed

lemma caught_injected: "caught msg (injectRenderedProperties s) = injected s"
  using injectRenderedProperties_returns [of s]
  by (cases "injectRenderedProperties s") (auto simp: caught_def injected_def)

lemma caught_removed: "caught msg (removeInjectedProperties s) = removed s"
  using removeInjectedProperties_returns [of s]
  by (cases "removeInjectedProperties s") (auto simp: caught_def removed_def)


lemma removed_restores:
  assumes "activeView s = Some v" "countWithin isBlock v (document s) = 0"
  shows "removed s = (restoreBackup s)\<lparr>document :=
           (case querySelector isBlock (document s) of
              None \<Rightarrow> document s
            | Some p \<Rightarrow> removeNode p (document s))\<rparr>"
proof -
  from assms(2) have "queryWithin isBlock v (document s) = None"
    by (simp add: queryWithin_None_iff)
  with assms(1) show ?thesis
    by (auto simp: removed_def removeInjectedProperties_def restoreBackup_def vault_modify_def
        consoleError_def Let_def split: option.splits)
qed




text \<open>
  C4 (patch, then restore, leaves the text as it was). The restore tests the backup entry
  for truth, and the empty text is not true: for a file whose text is empty the patch
  writes the block, the restore does nothing, the file keeps the block and the backup
  entry stays. For every other text the round trip holds (\<open>patch_restore_roundtrip\<close>).
\<close>

theorem C4_empty_text_not_restored:
  "vault (snd (patchFileForExport ''note.md'' [(''title'', Str ''Report'')] (previewless []))) ''note.md''
     = Some (''<!-- export-properties-start -->'' @ [newline]
             @ ''**Properties**'' @ [newline, newline]
             @ ''- **title**: Report'' @ [newline, newline]
             @ ''<!-- export-properties-end -->'' @ [newline])
   \<and> fileBackups (snd (patchFileForExport ''note.md'' [(''title'', Str ''Report'')] (previewless [])))
        ''note.md'' = Some []
   \<and> vault (restoreBackup
               (snd (patchFileForExport ''note.md'' [(''title'', Str ''Report'')] (previewless []))))
        ''note.md''
     = Some (''<!-- export-properties-start -->'' @ [newline]
             @ ''**Properties**'' @ [newline, newline]
             @ ''- **title**: Report'' @ [newline, newline]
             @ ''<!-- export-properties-end -->'' @ [newline])
   \<and> vault (removed (injected (previewless []))) ''note.md'' \<noteq> Some []
   \<and> fileBackups (removed (injected (previewless []))) ''note.md'' = Some []"
  by code_simp

section \<open>The trigger coordinator\<close>

lemma restoreBackup_success:
  assumes "activeFile s = Some p" "fileBackups s p = Some t" "t \<noteq> []"
    "vault s p \<noteq> None" "p \<notin> set (unwritable s)"
  shows "restoreBackup s = s\<lparr>vault := (vault s)(p \<mapsto> t), fileBackups := (fileBackups s)(p := None)\<rparr>"
  using assms by (auto simp: restoreBackup_def vault_modify_def)

lemma restoreBackup_failure:
  assumes "activeFile s = Some p" "fileBackups s p = Some t" "t \<noteq> []"
    "vault s p = None \<or> p \<in> set (unwritable s)"
  shows "restoreBackup s =
         consoleError ''Properties-on-export: failed to restore original file after export'' s"
  using assms by (auto simp: restoreBackup_def vault_modify_def)

lemma patchFileForExport_read_failure:
  assumes "getPropertiesMarkdown (settings s) (objectAssign ps) = Some md"
    "vault_read file s = Inl e"
  shows "patchFileForExport file ps s =
           (Inl e,
            (consoleError ''Properties-on-export: error patching file for export'' s)
              \<lparr>fileBackups := (fileBackups s)(file := None)\<rparr>)"
  using assms by (simp add: patchFileForExport_def patchFailed_def)

lemma patchFileForExport_write_failure:
  assumes "getPropertiesMarkdown (settings s) (objectAssign ps) = Some md"
    "vault_read file s = Inr T"
    "vault_modify file (newContent (settings s) md T)
       (s\<lparr>fileBackups := (fileBackups s)(file \<mapsto> T)\<rparr>) = Inl e"
  shows "patchFileForExport file ps s =
           (Inl e,
            (consoleError ''Properties-on-export: error patching file for export'' s)
              \<lparr>fileBackups := (fileBackups s)(file := None)\<rparr>)"
  using assms by (simp add: patchFileForExport_def patchFailed_def consoleError_def)

text \<open>
  Whatever the saved original returns or throws, each of the three closures ends in the
  state the remove step leaves, and passes the exception on. The remove step restores the
  text of the active file from its backup and deletes the entry when it gets as far as its
  restore: there is an active view with no block in its content, the backup text is not
  empty and the file can be written.
\<close>

lemma finally_runs_remove:
  assumes "originalPrintCallback s = Some cb" and "call cb (injected s) = (r, s2)"
  shows "printPatch call s = (r, removed s2)
       \<and> exportPdfPatch call s = (case r of Inl e \<Rightarrow> Inl e | Inr x \<Rightarrow> Inr Undefined, removed s2)
       \<and> appExportPdfPatch call s = (case r of Inl e \<Rightarrow> Inl e | Inr x \<Rightarrow> Inr Undefined, removed s2)
       \<and> (r = Inl e \<longrightarrow> fst (printPatch call s) = Inl e \<and> fst (exportPdfPatch call s) = Inl e
                        \<and> fst (appExportPdfPatch call s) = Inl e)
       \<and> (activeView s2 = Some v \<and> countWithin isBlock v (document s2) = 0
           \<and> activeFile s2 = Some p \<and> fileBackups s2 p = Some t \<and> t \<noteq> []
           \<and> vault s2 p \<noteq> None \<and> p \<notin> set (unwritable s2)
          \<longrightarrow> vault (removed s2) p = Some t \<and> fileBackups (removed s2) p = None)"
proof -
  have o: "originalPrintCallback (injected s) = Some cb"
    using assms(1) by (simp add: injected_frame)
  have 1: "printPatch call s = (r, removed s2)"
    using o assms(2) by (simp add: printPatch_def caught_injected caught_removed)
  have 2: "exportPatch name call s = (case r of Inl e \<Rightarrow> Inl e | Inr x \<Rightarrow> Inr Undefined, removed s2)" for name
    using o assms(2) by (simp add: exportPatch_def caught_injected caught_removed)
  have 3: "vault (removed s2) p = Some t \<and> fileBackups (removed s2) p = None"
    if "activeView s2 = Some v \<and> countWithin isBlock v (document s2) = 0
           \<and> activeFile s2 = Some p \<and> fileBackups s2 p = Some t \<and> t \<noteq> []
           \<and> vault s2 p \<noteq> None \<and> p \<notin> set (unwritable s2)"
    using that removed_restores [of s2 v] restoreBackup_success [of s2 p t] by simp
  show ?thesis using 1 2 3 by (auto simp: exportPdfPatch_def appExportPdfPatch_def)
qed

lemma finally_restores_backup:
  "printPatch throwingPrint printing = (Inl (Exn ''print failed''), removed (injected printing))
   \<and> fileBackups (injected printing) ''note.md'' = Some ''# Head''
   \<and> vault (removed (injected printing)) ''note.md'' = Some ''# Head''
   \<and> fileBackups (removed (injected printing)) ''note.md'' = None"
proof -
  have h1: "originalPrintCallback printing = Some (Host 0)" by code_simp
  have h2: "throwingPrint (Host 0) (injected printing) = (Inl (Exn ''print failed''), injected printing)"
    by (simp add: throwingPrint_def)
  have "fileBackups (injected printing) ''note.md'' = Some ''# Head''
   \<and> vault (removed (injected printing)) ''note.md'' = Some ''# Head''
   \<and> fileBackups (removed (injected printing)) ''note.md'' = None" by code_simp
  with finally_runs_remove
         [of printing "Host 0" throwingPrint "Inl (Exn ''print failed'')" "injected printing"]
       h1 h2
  show ?thesis by simp
qed

text \<open>
  C5 (the remove step, and the restore of a backup of the active document, are executed
  even when the delegated original action throws, and the exception propagates). The
  closures run the remove step in their \<open>finally\<close> block and pass the exception on
  (\<open>finally_runs_remove\<close>), but the remove step returns at its guard when there is no active
  view, before its restore block. Here the file was patched by \<open>inject\<close>, and the print
  function closes the view and throws: the exception propagates, and the backup of the
  active file is neither written back nor deleted. The file keeps the patched text.
\<close>

theorem C5_backup_not_restored_without_view:
  "vault printing ''note.md'' = Some ''# Head''
   \<and> fileBackups (injected printing) ''note.md'' = Some ''# Head''
   \<and> fst (exportPdfPatch failingPrint printing) = Inl (Exn ''print failed'')
   \<and> activeFile (snd (exportPdfPatch failingPrint printing)) = Some ''note.md''
   \<and> fileBackups (snd (exportPdfPatch failingPrint printing)) ''note.md'' = Some ''# Head''
   \<and> vault (snd (exportPdfPatch failingPrint printing)) ''note.md'' \<noteq> Some ''# Head''
   \<and> fst (printPatch failingPrint printing) = Inl (Exn ''print failed'')
   \<and> fileBackups (snd (printPatch failingPrint printing)) ''note.md'' = Some ''# Head''
   \<and> vault (snd (printPatch failingPrint printing)) ''note.md'' \<noteq> Some ''# Head''
   \<and> console (snd (printPatch failingPrint printing)) = []"
  by code_simp

text \<open>
  C6 (the lifetime of a backup entry), as the code has it. When the read or the write of
  the patch throws, the patch throws the same exception, and it leaves the state it found
  but for the logged failure and the entry of the file, which is deleted: the file is
  unchanged. When the remove step gets to its restore (an active view with no block in its
  content, a backup of the active file that is not the empty text) and the write succeeds,
  the text is restored and the entry deleted. When that write fails, the failure is logged,
  nothing is thrown, and the entry is kept.
\<close>

theorem C6_backup_lifetime:
  "(getPropertiesMarkdown (settings s) (objectAssign ps) = Some md \<and> vault_read file s = Inl e
     \<longrightarrow> patchFileForExport file ps s =
           (Inl e,
            (consoleError ''Properties-on-export: error patching file for export'' s)
              \<lparr>fileBackups := (fileBackups s)(file := None)\<rparr>))
   \<and> (getPropertiesMarkdown (settings s) (objectAssign ps) = Some md \<and> vault_read file s = Inr T
      \<and> vault_modify file (newContent (settings s) md T)
          (s\<lparr>fileBackups := (fileBackups s)(file \<mapsto> T)\<rparr>) = Inl e
     \<longrightarrow> patchFileForExport file ps s =
           (Inl e,
            (consoleError ''Properties-on-export: error patching file for export'' s)
              \<lparr>fileBackups := (fileBackups s)(file := None)\<rparr>))
   \<and> (activeView s = Some v \<and> countWithin isBlock v (document s) = 0
      \<and> activeFile s = Some p \<and> fileBackups s p = Some t \<and> t \<noteq> []
      \<and> vault s p \<noteq> None \<and> p \<notin> set (unwritable s)
     \<longrightarrow> fst (removeInjectedProperties s) = Inr ()
        \<and> vault (removed s) = (vault s)(p \<mapsto> t)
        \<and> fileBackups (removed s) = (fileBackups s)(p := None)
        \<and> console (removed s) = console s)
   \<and> (activeView s = Some v \<and> countWithin isBlock v (document s) = 0
      \<and> activeFile s = Some p \<and> fileBackups s p = Some t \<and> t \<noteq> []
      \<and> (vault s p = None \<or> p \<in> set (unwritable s))
     \<longrightarrow> fst (removeInjectedProperties s) = Inr ()
        \<and> vault (removed s) = vault s
        \<and> fileBackups (removed s) = fileBackups s
        \<and> console (removed s) =
            console s @ [''Properties-on-export: failed to restore original file after export''])"
proof (intro conjI impI)
  assume "getPropertiesMarkdown (settings s) (objectAssign ps) = Some md \<and> vault_read file s = Inl e"
  then show "patchFileForExport file ps s =
           (Inl e,
            (consoleError ''Properties-on-export: error patching file for export'' s)
              \<lparr>fileBackups := (fileBackups s)(file := None)\<rparr>)"
    using patchFileForExport_read_failure [of s ps md "file" e] by blast
next
  assume "getPropertiesMarkdown (settings s) (objectAssign ps) = Some md \<and> vault_read file s = Inr T
      \<and> vault_modify file (newContent (settings s) md T)
          (s\<lparr>fileBackups := (fileBackups s)(file \<mapsto> T)\<rparr>) = Inl e"
  then show "patchFileForExport file ps s =
           (Inl e,
            (consoleError ''Properties-on-export: error patching file for export'' s)
              \<lparr>fileBackups := (fileBackups s)(file := None)\<rparr>)"
    using patchFileForExport_write_failure [of s ps md "file" T e] by blast
next
  assume a: "activeView s = Some v \<and> countWithin isBlock v (document s) = 0
      \<and> activeFile s = Some p \<and> fileBackups s p = Some t \<and> t \<noteq> []
      \<and> vault s p \<noteq> None \<and> p \<notin> set (unwritable s)"
  then have r: "vault (removed s) = (vault s)(p \<mapsto> t)
        \<and> fileBackups (removed s) = (fileBackups s)(p := None)
        \<and> console (removed s) = console s"
    using removed_restores [of s v] restoreBackup_success [of s p t] by simp
  show "fst (removeInjectedProperties s) = Inr ()" by (rule removeInjectedProperties_returns)
  from r show "vault (removed s) = (vault s)(p \<mapsto> t)" by simp
  from r show "fileBackups (removed s) = (fileBackups s)(p := None)" by simp
  from r show "console (removed s) = console s" by simp
next
  assume a: "activeView s = Some v \<and> countWithin isBlock v (document s) = 0
      \<and> activeFile s = Some p \<and> fileBackups s p = Some t \<and> t \<noteq> []
      \<and> (vault s p = None \<or> p \<in> set (unwritable s))"
  then have r: "fileBackups (removed s) = fileBackups s \<and> vault (removed s) = vault s
        \<and> console (removed s) =
            console s @ [''Properties-on-export: failed to restore original file after export'']"
    using removed_restores [of s v] restoreBackup_failure [of s p t]
    by (auto simp: consoleError_def)
  show "fst (removeInjectedProperties s) = Inr ()" by (rule removeInjectedProperties_returns)
  from r show "fileBackups (removed s) = fileBackups s" by simp
  from r show "vault (removed s) = vault s" by simp
  from r show "console (removed s) =
            console s @ [''Properties-on-export: failed to restore original file after export'']" by simp
qed

theorem C6_backup_lifetime_witness:
  "fst (patchFileForExport ''note.md'' [(''title'', Str ''Report'')]
          ((previewless ''# Head'')\<lparr>vault := Map.empty\<rparr>)) = Inl (Exn ''vault.read failed'')
   \<and> fileBackups (snd (patchFileForExport ''note.md'' [(''title'', Str ''Report'')]
          ((previewless ''# Head'')\<lparr>vault := Map.empty\<rparr>))) ''note.md'' = None
   \<and> fst (patchFileForExport ''note.md'' [(''title'', Str ''Report'')]
          ((previewless ''# Head'')\<lparr>unwritable := [''note.md'']\<rparr>)) = Inl (Exn ''vault.modify failed'')
   \<and> fileBackups (snd (patchFileForExport ''note.md'' [(''title'', Str ''Report'')]
          ((previewless ''# Head'')\<lparr>unwritable := [''note.md'']\<rparr>))) ''note.md'' = None
   \<and> console (snd (patchFileForExport ''note.md'' [(''title'', Str ''Report'')]
          ((previewless ''# Head'')\<lparr>unwritable := [''note.md'']\<rparr>)))
       = [''Properties-on-export: error patching file for export'']
   \<and> vault (removed (injected (previewless ''# Head''))) ''note.md'' = Some ''# Head''
   \<and> fileBackups (removed (injected (previewless ''# Head''))) ''note.md'' = None
   \<and> fst (removeInjectedProperties ((injected (previewless ''# Head''))\<lparr>unwritable := [''note.md'']\<rparr>))
       = Inr ()
   \<and> fileBackups (removed ((injected (previewless ''# Head''))\<lparr>unwritable := [''note.md'']\<rparr>))
        ''note.md'' = Some ''# Head''
   \<and> console (removed ((injected (previewless ''# Head''))\<lparr>unwritable := [''note.md'']\<rparr>))
       = [''Properties-on-export: failed to restore original file after export'']"
proof -
  let ?ps = "[(''title'', Str ''Report'')]"
  let ?md = "the (getPropertiesMarkdown DEFAULT_SETTINGS ?ps)"
  let ?z = "(previewless ''# Head'')\<lparr>vault := Map.empty\<rparr>"
  let ?a = "(previewless ''# Head'')\<lparr>unwritable := [''note.md'']\<rparr>"
  let ?b = "injected (previewless ''# Head'')"
  let ?c = "(injected (previewless ''# Head''))\<lparr>unwritable := [''note.md'']\<rparr>"
  have z1: "getPropertiesMarkdown (settings ?z) (objectAssign ?ps) = Some ?md" by code_simp
  have z2: "vault_read ''note.md'' ?z = Inl (Exn ''vault.read failed'')" by code_simp
  have z3: "fileBackups ?z ''note.md'' = None" by code_simp
  have a1: "getPropertiesMarkdown (settings ?a) (objectAssign ?ps) = Some ?md" by code_simp
  have a2: "vault_read ''note.md'' ?a = Inr ''# Head''" by code_simp
  have a3: "vault_modify ''note.md'' (newContent (settings ?a) ?md ''# Head'')
              (?a\<lparr>fileBackups := (fileBackups ?a)(''note.md'' \<mapsto> ''# Head'')\<rparr>)
            = Inl (Exn ''vault.modify failed'')"
    by (simp add: vault_modify_def previewless_def)
  have a4: "console ?a = []" by code_simp
  have b1: "activeView ?b = Some [0]" by code_simp
  have b2: "countWithin isBlock [0] (document ?b) = 0" by code_simp
  have b3: "activeFile ?b = Some ''note.md''" by code_simp
  have b4: "fileBackups ?b ''note.md'' = Some ''# Head''" by code_simp
  have b5: "''# Head'' \<noteq> []" by simp
  have b6: "vault ?b ''note.md'' \<noteq> None" by code_simp
  have b7: "''note.md'' \<notin> set (unwritable ?b)" by code_simp
  have c1: "activeView ?c = Some [0]" by code_simp
  have c2: "countWithin isBlock [0] (document ?c) = 0" by code_simp
  have c3: "activeFile ?c = Some ''note.md''" by code_simp
  have c4: "fileBackups ?c ''note.md'' = Some ''# Head''" by code_simp
  have c5: "''note.md'' \<in> set (unwritable ?c)" by code_simp
  have c6: "console ?c = []" by code_simp
  from C6_backup_lifetime [of ?z ?ps ?md "''note.md''" "Exn ''vault.read failed''"] z1 z2
  have "patchFileForExport ''note.md'' ?ps ?z =
           (Inl (Exn ''vault.read failed''),
            (consoleError ''Properties-on-export: error patching file for export'' ?z)
              \<lparr>fileBackups := (fileBackups ?z)(''note.md'' := None)\<rparr>)"
    by blast
  then have rz: "fst (patchFileForExport ''note.md'' ?ps ?z) = Inl (Exn ''vault.read failed'')
       \<and> fileBackups (snd (patchFileForExport ''note.md'' ?ps ?z)) ''note.md'' = None"
    by simp
  from C6_backup_lifetime
         [of ?a ?ps ?md "''note.md''" "Exn ''vault.modify failed''" "''# Head''"] a1 a2 a3
  have "patchFileForExport ''note.md'' ?ps ?a =
           (Inl (Exn ''vault.modify failed''),
            (consoleError ''Properties-on-export: error patching file for export'' ?a)
              \<lparr>fileBackups := (fileBackups ?a)(''note.md'' := None)\<rparr>)"
    by blast
  then have ra: "fst (patchFileForExport ''note.md'' ?ps ?a) = Inl (Exn ''vault.modify failed'')
       \<and> fileBackups (snd (patchFileForExport ''note.md'' ?ps ?a)) ''note.md'' = None
       \<and> console (snd (patchFileForExport ''note.md'' ?ps ?a))
           = [''Properties-on-export: error patching file for export'']"
    using a4 by (simp add: consoleError_def)
  from C6_backup_lifetime [of ?b _ _ _ _ _ "[0]" "''note.md''" "''# Head''"]
       b1 b2 b3 b4 b5 b6 b7
  have "vault (removed ?b) = (vault ?b)(''note.md'' \<mapsto> ''# Head'')
       \<and> fileBackups (removed ?b) = (fileBackups ?b)(''note.md'' := None)"
    by blast
  then have rb: "vault (removed ?b) ''note.md'' = Some ''# Head''
       \<and> fileBackups (removed ?b) ''note.md'' = None"
    by simp
  from C6_backup_lifetime [of ?c _ _ _ _ _ "[0]" "''note.md''" "''# Head''"]
       c1 c2 c3 c4 b5 c5
  have "fst (removeInjectedProperties ?c) = Inr ()
       \<and> fileBackups (removed ?c) = fileBackups ?c
       \<and> console (removed ?c) =
            console ?c @ [''Properties-on-export: failed to restore original file after export'']"
    by blast
  with c4 c6 have rc: "fst (removeInjectedProperties ?c) = Inr ()
       \<and> fileBackups (removed ?c) ''note.md'' = Some ''# Head''
       \<and> console (removed ?c)
           = [''Properties-on-export: failed to restore original file after export'']"
    by simp
  from rz ra rb rc show ?thesis by blast
qed

text \<open>
  C6 as stated fails when the restoring write fails: the remove step logs the failure and
  the backup entry is still there after it.
\<close>

theorem C6_counterexample:
  "fileBackups ((injected (previewless ''# Head''))\<lparr>unwritable := [''note.md'']\<rparr>) ''note.md''
     = Some ''# Head''
   \<and> fileBackups (removed ((injected (previewless ''# Head''))\<lparr>unwritable := [''note.md'']\<rparr>))
        ''note.md'' = Some ''# Head''
   \<and> console (removed ((injected (previewless ''# Head''))\<lparr>unwritable := [''note.md'']\<rparr>))
     = [''Properties-on-export: failed to restore original file after export'']"
  by code_simp

lemma onunload_unpatched: "\<not> isPrintPatched s \<Longrightarrow> onunload s = s"
  by (simp add: onunload_def split: option.splits)

lemma onunload_restores_print:
  assumes "commands s ''editor:print'' = Some (Some cb)" "\<not> isPrintPatched s"
  shows "commands (onunload (onload s)) ''editor:print'' = Some (Some cb)"
  using assms
  by (simp add: onload_def patchPrint_def patchExport_def onunload_def split: option.splits)


text \<open>
  C9 (unload restores every intercepted command). \<open>onunload\<close> restores the callback of
  \<open>editor:print\<close> only (\<open>onunload_restores_print\<close>); \<open>onload\<close> does not save the callbacks
  of \<open>export-pdf\<close> and \<open>app:export-pdf\<close> it replaces, and after unload both commands still
  hold the plugin's closures. Without a patch of the print command \<open>onunload\<close> changes
  nothing (\<open>onunload_unpatched\<close>).
\<close>

theorem C9_export_commands_not_restored:
  "commands hostCommands ''export-pdf'' = Some (Some (Host 2))
   \<and> commands (onload hostCommands) ''export-pdf'' = Some (Some ExportPdfPatch)
   \<and> commands (onunload (onload hostCommands)) ''export-pdf'' = Some (Some ExportPdfPatch)
   \<and> commands hostCommands ''app:export-pdf'' = Some (Some (Host 3))
   \<and> commands (onunload (onload hostCommands)) ''app:export-pdf'' = Some (Some AppExportPdfPatch)
   \<and> commands (onunload (onload hostCommands)) ''editor:print'' = Some (Some (Host 1))"
  by code_simp

lemma exportPatch_delegates:
  "exportPatch name call s =
     (case originalPrintCallback s of
        Some cb \<Rightarrow>
          (case fst (call cb (injected s)) of Inl e \<Rightarrow> Inl e | Inr x \<Rightarrow> Inr Undefined,
           removed (snd (call cb (injected s))))
      | None \<Rightarrow> (Inr Undefined, removed (injected s)))"
  by (simp add: exportPatch_def caught_injected caught_removed injected_frame Let_def
      split: option.splits)

lemma onload_originalPrintCallback:
  "originalPrintCallback (onload s) =
     (case commands s ''editor:print'' of
        Some cb \<Rightarrow> if isPrintPatched s then originalPrintCallback s else cb
      | None \<Rightarrow> originalPrintCallback s)"
  by (simp add: onload_def patchPrint_def patchExport_def split: option.splits)

lemma onload_export:
  "commands s ''export-pdf'' \<noteq> None \<Longrightarrow>
     commands (onload s) ''export-pdf'' = Some (Some ExportPdfPatch)"
  "commands s ''app:export-pdf'' \<noteq> None \<Longrightarrow>
     commands (onload s) ''app:export-pdf'' = Some (Some AppExportPdfPatch)"
  by (auto simp: onload_def patchPrint_def patchExport_def split: option.splits)


text \<open>
  C10 (an intercepted export command delegates to the saved original of the print
  command). \<open>onload\<close> puts its closures into \<open>export-pdf\<close> and \<open>app:export-pdf\<close> when
  they exist, and the only callback it saves is the one of \<open>editor:print\<close>: a callback of
  the export command that is not also the print command's is not saved. Invoking a closure
  runs the saved print callback between inject and remove, or nothing when none is saved;
  its outcome is the same for any two ways of running callbacks that agree on the saved
  one, so no other callback is invoked.
\<close>

theorem C10_export_delegates_to_print_original:
  "(commands s ''export-pdf'' \<noteq> None
      \<longrightarrow> commands (onload s) ''export-pdf'' = Some (Some ExportPdfPatch))
   \<and> (commands s ''app:export-pdf'' \<noteq> None
      \<longrightarrow> commands (onload s) ''app:export-pdf'' = Some (Some AppExportPdfPatch))
   \<and> originalPrintCallback (onload s) =
       (case commands s ''editor:print'' of
          Some cb \<Rightarrow> if isPrintPatched s then originalPrintCallback s else cb
        | None \<Rightarrow> originalPrintCallback s)
   \<and> ((commands s ''export-pdf'' = Some (Some own) \<or> commands s ''app:export-pdf'' = Some (Some own))
        \<and> originalPrintCallback s \<noteq> Some own
        \<and> commands s ''editor:print'' \<noteq> Some (Some own)
      \<longrightarrow> originalPrintCallback (onload s) \<noteq> Some own)
   \<and> invoke call ExportPdfPatch s' =
       (case originalPrintCallback s' of
          Some cb \<Rightarrow>
            (case fst (call cb (injected s')) of Inl e \<Rightarrow> Inl e | Inr x \<Rightarrow> Inr Undefined,
             removed (snd (call cb (injected s'))))
        | None \<Rightarrow> (Inr Undefined, removed (injected s')))
   \<and> invoke call AppExportPdfPatch s' =
       (case originalPrintCallback s' of
          Some cb \<Rightarrow>
            (case fst (call cb (injected s')) of Inl e \<Rightarrow> Inl e | Inr x \<Rightarrow> Inr Undefined,
             removed (snd (call cb (injected s'))))
        | None \<Rightarrow> (Inr Undefined, removed (injected s')))
   \<and> ((\<forall>cb. originalPrintCallback s' = Some cb \<longrightarrow> call cb = call' cb)
      \<longrightarrow> invoke call ExportPdfPatch s' = invoke call' ExportPdfPatch s'
        \<and> invoke call AppExportPdfPatch s' = invoke call' AppExportPdfPatch s')"
proof (intro conjI impI)
  show "commands (onload s) ''export-pdf'' = Some (Some ExportPdfPatch)"
    if "commands s ''export-pdf'' \<noteq> None" using that by (rule onload_export)
  show "commands (onload s) ''app:export-pdf'' = Some (Some AppExportPdfPatch)"
    if "commands s ''app:export-pdf'' \<noteq> None" using that by (rule onload_export)
  show "originalPrintCallback (onload s) =
       (case commands s ''editor:print'' of
          Some cb \<Rightarrow> if isPrintPatched s then originalPrintCallback s else cb
        | None \<Rightarrow> originalPrintCallback s)"
    by (rule onload_originalPrintCallback)
  show "originalPrintCallback (onload s) \<noteq> Some own"
    if "(commands s ''export-pdf'' = Some (Some own) \<or> commands s ''app:export-pdf'' = Some (Some own))
        \<and> originalPrintCallback s \<noteq> Some own
        \<and> commands s ''editor:print'' \<noteq> Some (Some own)"
    using that by (auto simp: onload_originalPrintCallback split: option.splits)
  show "invoke call ExportPdfPatch s' =
       (case originalPrintCallback s' of
          Some cb \<Rightarrow>
            (case fst (call cb (injected s')) of Inl e \<Rightarrow> Inl e | Inr x \<Rightarrow> Inr Undefined,
             removed (snd (call cb (injected s'))))
        | None \<Rightarrow> (Inr Undefined, removed (injected s')))"
    by (simp add: invoke_def exportPdfPatch_def exportPatch_delegates)
  show "invoke call AppExportPdfPatch s' =
       (case originalPrintCallback s' of
          Some cb \<Rightarrow>
            (case fst (call cb (injected s')) of Inl e \<Rightarrow> Inl e | Inr x \<Rightarrow> Inr Undefined,
             removed (snd (call cb (injected s'))))
        | None \<Rightarrow> (Inr Undefined, removed (injected s')))"
    by (simp add: invoke_def appExportPdfPatch_def exportPatch_delegates)
next
  assume a: "\<forall>cb. originalPrintCallback s' = Some cb \<longrightarrow> call cb = call' cb"
  then have "exportPatch name call s' = exportPatch name call' s'" for name
    by (cases "originalPrintCallback s'") (simp_all add: exportPatch_delegates)
  then show "invoke call ExportPdfPatch s' = invoke call' ExportPdfPatch s'"
    and "invoke call AppExportPdfPatch s' = invoke call' AppExportPdfPatch s'"
    by (simp_all add: invoke_def exportPdfPatch_def appExportPdfPatch_def)
qed


theorem C10_export_delegates_to_print_original_witness:
  "commands (onload hostCommands) ''export-pdf'' = Some (Some ExportPdfPatch)
   \<and> commands (onload hostCommands) ''app:export-pdf'' = Some (Some AppExportPdfPatch)
   \<and> originalPrintCallback (onload hostCommands) = Some (Host 1)
   \<and> originalPrintCallback (onload hostCommands) \<noteq> Some (Host 2)
   \<and> invoke hostRun ExportPdfPatch (onload hostCommands)
       = invoke printOnly ExportPdfPatch (onload hostCommands)
   \<and> invoke hostRun AppExportPdfPatch (onload hostCommands)
       = invoke printOnly AppExportPdfPatch (onload hostCommands)
   \<and> console (snd (invoke hostRun ExportPdfPatch (onload hostCommands))) = [''host: print'']"
proof -
  let ?s = "onload hostCommands"
  have h1: "commands hostCommands ''export-pdf'' \<noteq> None" by code_simp
  have h2: "commands hostCommands ''app:export-pdf'' \<noteq> None" by code_simp
  have h3: "commands hostCommands ''export-pdf'' = Some (Some (Host 2))" by code_simp
  have h4: "originalPrintCallback hostCommands \<noteq> Some (Host 2)" by code_simp
  have h5: "commands hostCommands ''editor:print'' \<noteq> Some (Some (Host 2))" by code_simp
  have o: "originalPrintCallback ?s = Some (Host 1)" by code_simp
  have "hostRun (Host 1) = printOnly (Host 1)"
    by (simp add: fun_eq_iff hostRun_def printOnly_def)
  with o have h6: "\<forall>cb. originalPrintCallback ?s = Some cb \<longrightarrow> hostRun cb = printOnly cb"
    by simp
  have c: "console (snd (invoke hostRun ExportPdfPatch ?s)) = [''host: print'']" by code_simp
  from C10_export_delegates_to_print_original
         [of hostCommands "Host 2" hostRun ?s printOnly] h1 h2 h3 h4 h5 h6 o c
  show ?thesis by blast
qed

end
